theory Spec2Isabelle
  imports Main
begin

section \<open>JavaScript values and errors\<close>

text \<open>
  The sources are dynamically typed. The values that reach the combinators and the
  emitters are register names and operators (strings), immediates, addresses and bit
  masks (numbers), and \<open>undefined\<close> for an argument that is left out. \<open>Num\<close> holds an
  integer; JavaScript numbers agree with it on every integer below \<open>2^53\<close> in absolute
  value, which covers the 8- and 16-bit quantities of the Z80.
\<close>

datatype jsval = Undefined | Null | Num int | NaN | Bool bool | Str string

datatype error =
    Error string       \<comment> \<open>\<open>throw Error(msg)\<close>\<close>
  | TypeError string   \<comment> \<open>calling something that is not a function\<close>

definition bind_err :: "error + 'a \<Rightarrow> ('a \<Rightarrow> error + 'b) \<Rightarrow> error + 'b" where
  "bind_err r f = (case r of Inl e \<Rightarrow> Inl e | Inr x \<Rightarrow> f x)"

text \<open>\<open>x == undefined\<close>: the loose comparison also holds for \<open>null\<close>.\<close>

definition eq_undefined :: "jsval \<Rightarrow> bool" where
  "eq_undefined x = (x = Undefined \<or> x = Null)"

text \<open>Decimal digits of a number, for the string conversion of \<open>+\<close>.\<close>

fun digits :: "nat \<Rightarrow> string" where
  "digits n = (if n < 10 then [''0123456789'' ! n]
               else digits (n div 10) @ [''0123456789'' ! (n mod 10)])"

declare digits.simps [simp del]

fun toString :: "jsval \<Rightarrow> string" where
  "toString Undefined = ''undefined''"
| "toString Null = ''null''"
| "toString (Num i) = (if i < 0 then ''-'' @ digits (nat (- i)) else digits (nat i))"
| "toString NaN = ''NaN''"
| "toString (Bool b) = (if b then ''true'' else ''false'')"
| "toString (Str s) = s"

text \<open>The numeric value of an operand of \<open>+\<close> that is not a string (a string makes
  \<open>+\<close> concatenate and never reaches this conversion); \<open>None\<close> stands for \<open>NaN\<close>.\<close>

fun toNumber :: "jsval \<Rightarrow> int option" where
  "toNumber (Num i) = Some i"
| "toNumber Null = Some 0"
| "toNumber (Bool b) = Some (if b then 1 else 0)"
| "toNumber _ = None"

fun is_string :: "jsval \<Rightarrow> bool" where
  "is_string (Str s) = True"
| "is_string _ = False"

text \<open>
  The operator \<open>+\<close>: concatenation as soon as one side is a string, addition of numbers
  otherwise (\<open>NaN\<close> when a side has no numeric value).
\<close>

definition js_plus :: "jsval \<Rightarrow> jsval \<Rightarrow> jsval" where
  "js_plus a b =
     (if is_string a \<or> is_string b then Str (toString a @ toString b)
      else (case (toNumber a, toNumber b) of
              (Some x, Some y) \<Rightarrow> Num (x + y)
            | _ \<Rightarrow> NaN))"

text \<open>
  \<open>s.toUpperCase()\<close> on the ASCII letters, which is all a register name holds. Called
  on a value that is not a string, the method does not exist and the call throws.
\<close>

definition lower_letters :: string where
  "lower_letters = ''abcdefghijklmnopqrstuvwxyz''"

definition upper_letters :: string where
  "upper_letters = ''ABCDEFGHIJKLMNOPQRSTUVWXYZ''"

definition upper_char :: "char \<Rightarrow> char" where
  "upper_char c =
     (case map_of (zip lower_letters upper_letters) c of Some u \<Rightarrow> u | None \<Rightarrow> c)"

definition lower_char :: "char \<Rightarrow> char" where
  "lower_char c =
     (case map_of (zip upper_letters lower_letters) c of Some l \<Rightarrow> l | None \<Rightarrow> c)"

definition toUpperCase :: "jsval \<Rightarrow> error + string" where
  "toUpperCase v =
     (case v of Str s \<Rightarrow> Inr (map upper_char s)
      | _ \<Rightarrow> Inl (TypeError ''toUpperCase is not a function''))"

text \<open>\<open>prefix + (r1 + r2).toUpperCase()\<close>, the accessor name of a register pair.\<close>

definition pair_accessor :: "string \<Rightarrow> jsval \<Rightarrow> jsval \<Rightarrow> error + string" where
  "pair_accessor prefix r1 r2 =
     bind_err (toUpperCase (js_plus r1 r2)) (\<lambda>s. Inr (prefix @ s))"

section \<open>The node library \<open>n\<close>\<close>

text \<open>
  One constructor per node type. A field that the sources fill from a parameter holds a
  \<open>jsval\<close>; \<open>MemberExpression\<close> is always computed, so the flag is not stored.
\<close>

datatype node =
    IfStatement node node "node option"
  | BlockStatement "node list"
  | ExpressionStatement node
  | Register jsval
  | Identifier string
  | Literal jsval
  | CallExpression node "node list"
  | AssignmentExpression string node node
  | BinaryExpression jsval node node
  | MemberExpression node node
  | ReturnStatement "node option"

text \<open>
  The arguments of \<open>n.CallExpression(callee, args)\<close>: left out, a single node (wrapped
  into a one-element array), or an array. The callee string becomes an \<open>Identifier\<close>.
\<close>

datatype call_args = NoArgs | OneArg node | ArgArray "node list"

definition n_CallExpression :: "string \<Rightarrow> call_args \<Rightarrow> node" where
  "n_CallExpression callee args =
     CallExpression (Identifier callee)
       (case args of NoArgs \<Rightarrow> [] | OneArg a \<Rightarrow> [a] | ArgArray as \<Rightarrow> as)"

text \<open>\<open>n.IfStatement(test, consequent)\<close> and \<open>n.ReturnStatement()\<close> with the optional
  argument left out store \<open>null\<close>.\<close>

definition n_IfStatement :: "node \<Rightarrow> node \<Rightarrow> node" where
  "n_IfStatement test consequent = IfStatement test consequent None"

definition n_ReturnStatement :: node where
  "n_ReturnStatement = ReturnStatement None"

section \<open>The combinator library \<open>o\<close>\<close>

text \<open>
  What an emitter returns: nothing (\<open>NOOP\<close>), one statement, or an array. The elements
  of an array are whatever the code puts there (\<open>DJNZ\<close> stores the value returned by the
  emitter of \<open>JR\<close>).
\<close>

datatype emitted = NoValue | One node | Array "emitted list"

text \<open>An emitter is called with \<open>(value, target, currentAddress)\<close>.\<close>

type_synonym emitter = "jsval \<Rightarrow> jsval \<Rightarrow> jsval \<Rightarrow> error + emitted"

text \<open>
  The globals the combinators read but the source files do not define: the flag masks
  and the table \<open>sms.cpu.SZP_TABLE\<close>. They are a parameter of the model.
\<close>

record env =
  F_CARRY :: int
  F_ZERO :: int
  F_PARITY :: int
  F_SIGN :: int
  F_HALFCARRY :: int
  SZP_TABLE :: "int list"

text \<open>\<open>table[i]\<close> on an array of numbers: \<open>undefined\<close> past the end.\<close>

definition js_index :: "int list \<Rightarrow> nat \<Rightarrow> jsval" where
  "js_index xs i = (if i < length xs then Num (xs ! i) else Undefined)"

definition READ_MEM8 :: "node \<Rightarrow> node" where
  "READ_MEM8 v = n_CallExpression ''readMem'' (OneArg v)"

definition READ_MEM16 :: "node \<Rightarrow> node" where
  "READ_MEM16 v = n_CallExpression ''readMemWord'' (OneArg v)"

definition stmt :: "node \<Rightarrow> error + emitted" where
  "stmt e = Inr (One (ExpressionStatement e))"

definition NOOP :: emitter where
  "NOOP = (\<lambda>value target currentAddress. Inr NoValue)"

definition LD8 :: "jsval \<Rightarrow> jsval \<Rightarrow> jsval \<Rightarrow> emitter" where
  "LD8 srcRegister dstRegister1 dstRegister2 =
     (if eq_undefined dstRegister1 \<and> eq_undefined dstRegister2 then
        (\<lambda>value target currentAddress.
           stmt (AssignmentExpression ''='' (Register srcRegister) (Literal value)))
      else if eq_undefined dstRegister2 then
        (\<lambda>value target currentAddress.
           stmt (AssignmentExpression ''='' (Register srcRegister) (Register dstRegister1)))
      else if dstRegister1 = Str ''n'' \<and> dstRegister2 = Str ''n'' then
        (\<lambda>value target currentAddress.
           stmt (AssignmentExpression ''='' (Register srcRegister) (READ_MEM8 (Literal value))))
      else
        (\<lambda>value target currentAddress.
           bind_err (pair_accessor ''get'' dstRegister1 dstRegister2) (\<lambda>g.
             stmt (AssignmentExpression ''='' (Register srcRegister)
                     (READ_MEM8 (n_CallExpression g NoArgs))))))"

definition LD16 :: "jsval \<Rightarrow> jsval \<Rightarrow> jsval \<Rightarrow> jsval \<Rightarrow> error + emitter" where
  "LD16 srcRegister1 srcRegister2 dstRegister1 dstRegister2 =
     (if eq_undefined dstRegister1 \<and> eq_undefined dstRegister2 then
        Inr (\<lambda>value target currentAddress.
           bind_err (pair_accessor ''set'' srcRegister1 srcRegister2) (\<lambda>s.
             stmt (n_CallExpression s (OneArg (Literal value)))))
      else if dstRegister1 = Str ''n'' \<and> dstRegister2 = Str ''n'' then
        Inr (\<lambda>value target currentAddress.
           bind_err (pair_accessor ''set'' srcRegister1 srcRegister2) (\<lambda>s.
             stmt (n_CallExpression s (OneArg (READ_MEM16 (Literal value))))))
      else Inl (Error ''Wrong parameters number''))"

definition LD_WRITE_MEM :: "jsval \<Rightarrow> jsval \<Rightarrow> jsval \<Rightarrow> jsval \<Rightarrow> emitter" where
  "LD_WRITE_MEM srcRegister1 srcRegister2 dstRegister1 dstRegister2 =
     (if eq_undefined dstRegister1 \<and> eq_undefined dstRegister2 then
        (\<lambda>value target currentAddress.
           bind_err (pair_accessor ''get'' srcRegister1 srcRegister2) (\<lambda>g.
             stmt (n_CallExpression ''writeMem''
                     (ArgArray [n_CallExpression g NoArgs, Literal value]))))
      else if srcRegister1 = Str ''n'' \<and> srcRegister2 = Str ''n''
              \<and> eq_undefined dstRegister2 then
        (\<lambda>value target currentAddress.
           stmt (n_CallExpression ''writeMem''
                   (ArgArray [Literal value, Register dstRegister1])))
      else if srcRegister1 = Str ''n'' \<and> srcRegister2 = Str ''n'' then
        (\<lambda>value target currentAddress.
           Inr (Array
             [One (ExpressionStatement (n_CallExpression ''writeMem''
                     (ArgArray [Literal value, Register dstRegister2]))),
              One (ExpressionStatement (n_CallExpression ''writeMem''
                     (ArgArray [Literal (js_plus value (Num 1)), Register dstRegister1])))]))
      else
        (\<lambda>value target currentAddress.
           bind_err (pair_accessor ''get'' srcRegister1 srcRegister2) (\<lambda>g.
             stmt (n_CallExpression ''writeMem''
                     (ArgArray [n_CallExpression g NoArgs, Register dstRegister1])))))"

definition LD_SP :: emitter where
  "LD_SP = (\<lambda>value target currentAddress.
     stmt (AssignmentExpression ''='' (Identifier ''sp'') (Literal value)))"

definition INC8 :: "jsval \<Rightarrow> emitter" where
  "INC8 register = (\<lambda>value target currentAddress.
     stmt (AssignmentExpression ''='' (Register register)
             (n_CallExpression ''inc8'' (OneArg (Register register)))))"

definition INC16 :: "jsval \<Rightarrow> jsval \<Rightarrow> emitter" where
  "INC16 register1 register2 = (\<lambda>value target currentAddress.
     bind_err (pair_accessor ''inc'' register1 register2) (\<lambda>f.
       stmt (n_CallExpression f NoArgs)))"

definition DEC8 :: "jsval \<Rightarrow> emitter" where
  "DEC8 register = (\<lambda>value target currentAddress.
     stmt (AssignmentExpression ''='' (Register register)
             (n_CallExpression ''dec8'' (OneArg (Register register)))))"

definition DEC16 :: "jsval \<Rightarrow> jsval \<Rightarrow> emitter" where
  "DEC16 register1 register2 = (\<lambda>value target currentAddress.
     bind_err (pair_accessor ''dec'' register1 register2) (\<lambda>f.
       stmt (n_CallExpression f NoArgs)))"

text \<open>The arguments of a call are evaluated left to right: the callee string
  \<open>set..\<close>, then the two \<open>get..\<close> strings.\<close>

definition ADD16 :: "jsval \<Rightarrow> jsval \<Rightarrow> jsval \<Rightarrow> jsval \<Rightarrow> emitter" where
  "ADD16 register1 register2 register3 register4 = (\<lambda>value target currentAddress.
     bind_err (pair_accessor ''set'' register1 register2) (\<lambda>s.
     bind_err (pair_accessor ''get'' register1 register2) (\<lambda>g1.
     bind_err (pair_accessor ''get'' register3 register4) (\<lambda>g2.
       stmt (n_CallExpression s
               (OneArg (n_CallExpression ''add16''
                  (ArgArray [n_CallExpression g1 NoArgs, n_CallExpression g2 NoArgs]))))))))"

definition EX_AF :: emitter where
  "EX_AF = (\<lambda>value target currentAddress. stmt (n_CallExpression ''exAF'' NoArgs))"

definition RLA :: emitter where
  "RLA = (\<lambda>value target currentAddress. stmt (n_CallExpression ''rla_a'' NoArgs))"

definition RRA :: emitter where
  "RRA = (\<lambda>value target currentAddress. stmt (n_CallExpression ''rra_a'' NoArgs))"

definition ADD :: "jsval \<Rightarrow> jsval \<Rightarrow> emitter" where
  "ADD register1 register2 =
     (if eq_undefined register1 \<and> eq_undefined register2 then
        (\<lambda>value target currentAddress.
           stmt (n_CallExpression ''add_a'' (OneArg (Literal value))))
      else if eq_undefined register2 then
        (\<lambda>value target currentAddress.
           stmt (n_CallExpression ''add_a'' (OneArg (Register register1))))
      else
        (\<lambda>value target currentAddress.
           bind_err (pair_accessor ''get'' register1 register2) (\<lambda>g.
             stmt (n_CallExpression ''add_a''
                     (OneArg (READ_MEM8 (n_CallExpression g NoArgs)))))))"

definition SUB :: "jsval \<Rightarrow> emitter" where
  "SUB register =
     (if eq_undefined register then
        (\<lambda>value target currentAddress.
           stmt (n_CallExpression ''sub_a'' (OneArg (Literal value))))
      else
        (\<lambda>value target currentAddress.
           stmt (n_CallExpression ''sub_a'' (OneArg (Register register)))))"

text \<open>\<open>f = SZP_TABLE[a] | F_HALFCARRY\<close> and \<open>f = SZP_TABLE[a]\<close>, as the sources build
  them in place.\<close>

definition szp_halfcarry :: "env \<Rightarrow> node" where
  "szp_halfcarry E =
     ExpressionStatement (AssignmentExpression ''='' (Register (Str ''f''))
       (BinaryExpression (Str ''|'')
          (MemberExpression (Identifier ''SZP_TABLE'') (Register (Str ''a'')))
          (Literal (Num (F_HALFCARRY E)))))"

definition szp_flags :: node where
  "szp_flags =
     ExpressionStatement (AssignmentExpression ''='' (Register (Str ''f''))
       (MemberExpression (Identifier ''SZP_TABLE'') (Register (Str ''a''))))"

definition AND :: "env \<Rightarrow> jsval \<Rightarrow> emitter" where
  "AND E register =
     (if eq_undefined register then
        (\<lambda>value target currentAddress.
           Inr (Array
             [One (ExpressionStatement
                     (AssignmentExpression ''&='' (Register (Str ''a'')) (Literal value))),
              One (szp_halfcarry E)]))
      else if register \<noteq> Str ''a'' then
        (\<lambda>value target currentAddress.
           Inr (Array
             [One (ExpressionStatement
                     (AssignmentExpression ''&='' (Register (Str ''a'')) (Register register))),
              One (szp_halfcarry E)]))
      else
        (\<lambda>value target currentAddress. Inr (One (szp_halfcarry E))))"

definition XOR :: "env \<Rightarrow> jsval \<Rightarrow> emitter" where
  "XOR E register =
     (if eq_undefined register then
        (\<lambda>value target currentAddress.
           Inr (Array
             [One (ExpressionStatement
                     (AssignmentExpression ''^='' (Register (Str ''a'')) (Literal value))),
              One szp_flags]))
      else if register \<noteq> Str ''a'' then
        (\<lambda>value target currentAddress.
           Inr (Array
             [One (ExpressionStatement
                     (AssignmentExpression ''^='' (Register (Str ''a'')) (Register register))),
              One szp_flags]))
      else
        (\<lambda>value target currentAddress.
           Inr (Array
             [One (ExpressionStatement
                     (AssignmentExpression ''='' (Register (Str ''a'')) (Literal (Num 0)))),
              One (ExpressionStatement
                     (AssignmentExpression ''='' (Register (Str ''f''))
                        (Literal (js_index (SZP_TABLE E) 0))))])))"

definition OR :: "jsval \<Rightarrow> emitter" where
  "OR register =
     (if register \<noteq> Str ''a'' then
        (\<lambda>value target currentAddress.
           Inr (Array
             [One (ExpressionStatement
                     (AssignmentExpression ''|='' (Register (Str ''a'')) (Register register))),
              One szp_flags]))
      else
        (\<lambda>value target currentAddress. Inr (One szp_flags)))"

definition JR :: "node \<Rightarrow> emitter" where
  "JR test = (\<lambda>value target currentAddress.
     Inr (One (n_IfStatement test
       (BlockStatement
          [ExpressionStatement (AssignmentExpression ''='' (Identifier ''pc'') (Literal target)),
           ExpressionStatement
             (AssignmentExpression ''-='' (Identifier ''tstates'') (Literal (Num 5)))]))))"

definition DJNZ :: emitter where
  "DJNZ = (\<lambda>value target currentAddress.
     bind_err
       (JR (BinaryExpression (Str ''!='') (Register (Str ''b'')) (Literal (Num 0)))
          Undefined target Undefined)
       (\<lambda>jump. Inr (Array
          [One (ExpressionStatement
                  (AssignmentExpression ''='' (Register (Str ''b''))
                     (BinaryExpression (Str ''&'')
                        (BinaryExpression (Str ''-'') (Register (Str ''b'')) (Literal (Num 1)))
                        (Literal (Num 255))))),
           jump])))"

text \<open>\<open>(f & bitMask) operator 0\<close>, the test of the conditional forms.\<close>

definition flag_test :: "jsval \<Rightarrow> jsval \<Rightarrow> node" where
  "flag_test operator bitMask =
     BinaryExpression operator
       (BinaryExpression (Str ''&'') (Register (Str ''f'')) (Literal bitMask))
       (Literal (Num 0))"

definition RET :: "jsval \<Rightarrow> jsval \<Rightarrow> emitter" where
  "RET operator bitMask =
     (if eq_undefined operator \<and> eq_undefined bitMask then
        (\<lambda>value target currentAddress.
           Inr (Array
             [One (ExpressionStatement
                     (AssignmentExpression ''='' (Identifier ''pc'')
                        (READ_MEM16 (Identifier ''sp'')))),
              One (ExpressionStatement
                     (AssignmentExpression ''+='' (Identifier ''sp'') (Literal (Num 2)))),
              One n_ReturnStatement]))
      else
        (\<lambda>value target currentAddress.
           stmt (n_CallExpression ''ret'' (OneArg (flag_test operator bitMask)))))"

definition JP :: "jsval \<Rightarrow> jsval \<Rightarrow> emitter" where
  "JP operator bitMask =
     (if eq_undefined operator \<and> eq_undefined bitMask then
        (\<lambda>value target currentAddress.
           Inr (Array
             [One (ExpressionStatement
                     (AssignmentExpression ''='' (Identifier ''pc'') (Literal target))),
              One n_ReturnStatement]))
      else
        (\<lambda>value target currentAddress.
           Inr (One (n_IfStatement (flag_test operator bitMask)
             (BlockStatement
                [ExpressionStatement
                   (AssignmentExpression ''='' (Identifier ''pc'') (Literal target)),
                 n_ReturnStatement])))))"

definition CALL :: "jsval \<Rightarrow> jsval \<Rightarrow> emitter" where
  "CALL operator bitMask =
     (if eq_undefined operator \<and> eq_undefined bitMask then
        (\<lambda>value target currentAddress.
           Inr (Array
             [One (ExpressionStatement
                     (n_CallExpression ''push1''
                        (OneArg (Literal (js_plus currentAddress (Num 2)))))),
              One (ExpressionStatement
                     (AssignmentExpression ''='' (Identifier ''pc'') (Literal target))),
              One n_ReturnStatement]))
      else
        (\<lambda>value target currentAddress.
           Inr (One (n_IfStatement (flag_test operator bitMask)
             (BlockStatement
                [ExpressionStatement
                   (n_CallExpression ''push1''
                      (OneArg (Literal (js_plus currentAddress (Num 2))))),
                 ExpressionStatement
                   (AssignmentExpression ''='' (Identifier ''pc'') (Literal target)),
                 ExpressionStatement
                   (AssignmentExpression ''-='' (Identifier ''tstates'') (Literal (Num 7))),
                 n_ReturnStatement])))))"

definition RST :: "jsval \<Rightarrow> emitter" where
  "RST targetAddress = (\<lambda>value target currentAddress.
     Inr (Array
       [One (ExpressionStatement
               (n_CallExpression ''push1'' (OneArg (Literal currentAddress)))),
        One (ExpressionStatement
               (AssignmentExpression ''='' (Identifier ''pc'') (Literal targetAddress))),
        One n_ReturnStatement]))"

section \<open>The opcode table\<close>

definition UINT8 :: int where "UINT8 = 1"
definition INT8 :: int where "INT8 = 2"
definition UINT16 :: int where "UINT16 = 3"

text \<open>
  An opcode descriptor. A property that the object literal does not set reads as
  \<open>undefined\<close>: \<open>None\<close> here.
\<close>

record entry =
  name :: "string option"
  ast :: "emitter option"
  operand :: "int option"

text \<open>
  The elements of the array literal are evaluated in order, and the first combinator
  call that throws aborts the construction of the table: \<open>opcodeSlots\<close> lists the
  elements as written, \<open>collect\<close> runs them. \<open>plain\<close> is an element whose \<open>ast\<close>
  cannot throw, \<open>checked\<close> one whose \<open>ast\<close> is a call of \<open>LD16\<close>.
\<close>

definition plain :: "string option \<Rightarrow> emitter option \<Rightarrow> int option \<Rightarrow> error + entry" where
  "plain nm a op = Inr \<lparr>name = nm, ast = a, operand = op\<rparr>"

definition checked :: "string option \<Rightarrow> error + emitter \<Rightarrow> int option \<Rightarrow> error + entry" where
  "checked nm c op = bind_err c (\<lambda>a. Inr \<lparr>name = nm, ast = Some a, operand = op\<rparr>)"

fun collect :: "(error + 'a) list \<Rightarrow> error + 'a list" where
  "collect [] = Inr []"
| "collect (x # xs) = bind_err x (\<lambda>y. bind_err (collect xs) (\<lambda>ys. Inr (y # ys)))"

definition opcodeSlots :: "env \<Rightarrow> (error + entry) list" where
  "opcodeSlots E = [
     \<comment> \<open>0x00\<close> plain (Some ''NOP'') (Some NOOP) None,
     \<comment> \<open>0x01\<close> checked (Some ''LD BC,nn'') (LD16 (Str ''b'') (Str ''c'') Undefined Undefined) (Some UINT16),
     \<comment> \<open>0x02\<close> plain (Some ''LD (BC),A'') (Some (LD_WRITE_MEM (Str ''b'') (Str ''c'') (Str ''a'') Undefined)) None,
     \<comment> \<open>0x03\<close> plain (Some ''INC BC'') (Some (INC16 (Str ''b'') (Str ''c''))) None,
     \<comment> \<open>0x04\<close> plain (Some ''INC B'') (Some (INC8 (Str ''b''))) None,
     \<comment> \<open>0x05\<close> plain (Some ''DEC B'') (Some (DEC8 (Str ''b''))) None,
     \<comment> \<open>0x06\<close> plain (Some ''LD B,n'') (Some (LD8 (Str ''b'') Undefined Undefined)) (Some UINT8),
     \<comment> \<open>0x07\<close> plain (Some ''RLCA'') None None,
     \<comment> \<open>0x08\<close> plain (Some (''EX AF AF'' @ [CHR 0x27])) (Some EX_AF) None,
     \<comment> \<open>0x09\<close> plain (Some ''ADD HL,BC'') (Some (ADD16 (Str ''h'') (Str ''l'') (Str ''b'') (Str ''c''))) None,
     \<comment> \<open>0x0A\<close> plain (Some ''LD A,(BC)'') (Some (LD8 (Str ''a'') (Str ''b'') (Str ''c''))) None,
     \<comment> \<open>0x0B\<close> plain (Some ''DEC BC'') (Some (DEC16 (Str ''b'') (Str ''c''))) None,
     \<comment> \<open>0x0C\<close> plain (Some ''INC C'') (Some (INC8 (Str ''c''))) None,
     \<comment> \<open>0x0D\<close> plain (Some ''DEC C'') (Some (DEC8 (Str ''c''))) None,
     \<comment> \<open>0x0E\<close> plain (Some ''LD C,n'') (Some (LD8 (Str ''c'') Undefined Undefined)) (Some UINT8),
     \<comment> \<open>0x0F\<close> plain (Some ''RRCA'') None None,
     \<comment> \<open>0x10\<close> plain (Some ''DJNZ (PC+e)'') (Some DJNZ) (Some INT8),
     \<comment> \<open>0x11\<close> checked (Some ''LD DE,nn'') (LD16 (Str ''d'') (Str ''e'') Undefined Undefined) (Some UINT16),
     \<comment> \<open>0x12\<close> plain (Some ''LD (DE),A'') (Some (LD_WRITE_MEM (Str ''d'') (Str ''e'') (Str ''a'') Undefined)) None,
     \<comment> \<open>0x13\<close> plain (Some ''INC DE'') (Some (INC16 (Str ''d'') (Str ''e''))) None,
     \<comment> \<open>0x14\<close> plain (Some ''INC D'') (Some (INC8 (Str ''d''))) None,
     \<comment> \<open>0x15\<close> plain (Some ''DEC D'') (Some (DEC8 (Str ''d''))) None,
     \<comment> \<open>0x16\<close> plain (Some ''LD D,n'') (Some (LD8 (Str ''d'') Undefined Undefined)) (Some UINT8),
     \<comment> \<open>0x17\<close> plain (Some ''RLA'') (Some RLA) None,
     \<comment> \<open>0x18\<close> plain (Some ''JR (PC+e)'') None (Some INT8),
     \<comment> \<open>0x19\<close> plain (Some ''ADD HL,DE'') (Some (ADD16 (Str ''h'') (Str ''l'') (Str ''d'') (Str ''e''))) None,
     \<comment> \<open>0x1A\<close> plain (Some ''LD A,(DE)'') (Some (LD8 (Str ''a'') (Str ''d'') (Str ''e''))) None,
     \<comment> \<open>0x1B\<close> plain None (Some (DEC16 (Str ''d'') (Str ''e''))) None,  \<comment> \<open>the key is spelled \<open>ame\<close>: DEC DE\<close>
     \<comment> \<open>0x1C\<close> plain (Some ''INC E'') (Some (INC8 (Str ''e''))) None,
     \<comment> \<open>0x1D\<close> plain (Some ''DEC E'') (Some (DEC8 (Str ''e''))) None,
     \<comment> \<open>0x1E\<close> plain (Some ''LD E,n'') (Some (LD8 (Str ''e'') Undefined Undefined)) (Some UINT8),
     \<comment> \<open>0x1F\<close> plain (Some ''RRA'') (Some RRA) None,
     \<comment> \<open>0x20\<close> plain (Some ''JR NZ,(PC+e)'') None (Some INT8),
     \<comment> \<open>0x21\<close> checked (Some ''LD HL,nn'') (LD16 (Str ''h'') (Str ''l'') Undefined Undefined) (Some UINT16),
     \<comment> \<open>0x22\<close> plain (Some ''LD (nn),HL'') (Some (LD_WRITE_MEM (Str ''n'') (Str ''n'') (Str ''h'') (Str ''l''))) (Some UINT16),
     \<comment> \<open>0x23\<close> plain (Some ''INC HL'') (Some (INC16 (Str ''h'') (Str ''l''))) None,
     \<comment> \<open>0x24\<close> plain (Some ''INC H'') None None,
     \<comment> \<open>0x25\<close> plain (Some ''DEC H'') None None,
     \<comment> \<open>0x26\<close> plain (Some ''LD H,n'') (Some (LD8 (Str ''h'') Undefined Undefined)) (Some UINT8),
     \<comment> \<open>0x27\<close> plain (Some ''DAA'') None None,
     \<comment> \<open>0x28\<close> plain (Some ''JR Z,(PC+e)'') None (Some INT8),
     \<comment> \<open>0x29\<close> plain (Some ''ADD HL,HL'') (Some (ADD16 (Str ''h'') (Str ''l'') (Str ''h'') (Str ''l''))) None,
     \<comment> \<open>0x2A\<close> checked (Some ''LD HL,(nn)'') (LD16 (Str ''h'') (Str ''l'') (Str ''n'') (Str ''n'')) (Some UINT16),
     \<comment> \<open>0x2B\<close> plain (Some ''DEC HL'') None None,
     \<comment> \<open>0x2C\<close> plain (Some ''INC L'') None None,
     \<comment> \<open>0x2D\<close> plain (Some ''DEC L'') None None,
     \<comment> \<open>0x2E\<close> plain (Some ''LD L,n'') (Some (LD8 (Str ''l'') Undefined Undefined)) (Some UINT8),
     \<comment> \<open>0x2F\<close> plain (Some ''CPL'') None None,
     \<comment> \<open>0x30\<close> plain (Some ''JR NC,(PC+e)'') None (Some INT8),
     \<comment> \<open>0x31\<close> plain (Some ''LD SP,nn'') (Some LD_SP) (Some UINT16),
     \<comment> \<open>0x32\<close> plain (Some ''LD (nn),A'') (Some (LD_WRITE_MEM (Str ''n'') (Str ''n'') (Str ''a'') Undefined)) (Some UINT16),
     \<comment> \<open>0x33\<close> plain (Some ''INC SP'') None None,
     \<comment> \<open>0x34\<close> plain (Some ''INC (HL)'') None None,
     \<comment> \<open>0x35\<close> plain (Some ''DEC (HL)'') None None,
     \<comment> \<open>0x36\<close> plain (Some ''LD (HL),n'') (Some (LD_WRITE_MEM (Str ''h'') (Str ''l'') Undefined Undefined)) (Some UINT8),
     \<comment> \<open>0x37\<close> plain (Some ''SCF'') None None,
     \<comment> \<open>0x38\<close> plain (Some ''JR C,(PC+e)'') None (Some INT8),
     \<comment> \<open>0x39\<close> plain (Some ''ADD HL,SP'') None None,
     \<comment> \<open>0x3A\<close> plain (Some ''LD A,(nn)'') (Some (LD8 (Str ''a'') (Str ''n'') (Str ''n''))) (Some UINT16),
     \<comment> \<open>0x3B\<close> plain (Some ''DEC SP'') None None,
     \<comment> \<open>0x3C\<close> plain (Some ''INC A'') (Some (INC8 (Str ''a''))) None,
     \<comment> \<open>0x3D\<close> plain (Some ''DEC A'') (Some (DEC8 (Str ''a''))) None,
     \<comment> \<open>0x3E\<close> plain (Some ''LD A,n'') (Some (LD8 (Str ''a'') Undefined Undefined)) (Some UINT8),
     \<comment> \<open>0x3F\<close> plain (Some ''CCF'') None None,
     \<comment> \<open>0x40\<close> plain (Some ''LD B,B'') (Some NOOP) (Some UINT8),
     \<comment> \<open>0x41\<close> plain (Some ''LD B,C'') (Some (LD8 (Str ''b'') (Str ''c'') Undefined)) None,
     \<comment> \<open>0x42\<close> plain (Some ''LD B,D'') (Some (LD8 (Str ''b'') (Str ''d'') Undefined)) None,
     \<comment> \<open>0x43\<close> plain (Some ''LD B,E'') (Some (LD8 (Str ''b'') (Str ''e'') Undefined)) None,
     \<comment> \<open>0x44\<close> plain (Some ''LD B,H'') (Some (LD8 (Str ''b'') (Str ''h'') Undefined)) None,
     \<comment> \<open>0x45\<close> plain (Some ''LD B,L'') (Some (LD8 (Str ''b'') (Str ''l'') Undefined)) None,
     \<comment> \<open>0x46\<close> plain (Some ''LD B,(HL)'') None None,
     \<comment> \<open>0x47\<close> plain (Some ''LD B,A'') (Some (LD8 (Str ''b'') (Str ''a'') Undefined)) None,
     \<comment> \<open>0x48\<close> plain (Some ''LD C,B'') (Some (LD8 (Str ''c'') (Str ''b'') Undefined)) None,
     \<comment> \<open>0x49\<close> plain (Some ''LD C,C'') (Some NOOP) None,
     \<comment> \<open>0x4A\<close> plain (Some ''LD C,D'') (Some (LD8 (Str ''c'') (Str ''d'') Undefined)) None,
     \<comment> \<open>0x4B\<close> plain (Some ''LD C,E'') (Some (LD8 (Str ''c'') (Str ''e'') Undefined)) None,
     \<comment> \<open>0x4C\<close> plain (Some ''LD C,H'') (Some (LD8 (Str ''c'') (Str ''h'') Undefined)) None,
     \<comment> \<open>0x4D\<close> plain (Some ''LD C,L'') (Some (LD8 (Str ''c'') (Str ''l'') Undefined)) None,
     \<comment> \<open>0x4E\<close> plain (Some ''LD C,(HL)'') None None,
     \<comment> \<open>0x4F\<close> plain (Some ''LD C,A'') (Some (LD8 (Str ''c'') (Str ''a'') Undefined)) None,
     \<comment> \<open>0x50\<close> plain (Some ''LD D,B'') (Some (LD8 (Str ''d'') (Str ''b'') Undefined)) None,
     \<comment> \<open>0x51\<close> plain (Some ''LD D,C'') (Some (LD8 (Str ''d'') (Str ''c'') Undefined)) None,
     \<comment> \<open>0x52\<close> plain (Some ''LD D,D'') (Some NOOP) None,
     \<comment> \<open>0x53\<close> plain (Some ''LD D,E'') (Some (LD8 (Str ''d'') (Str ''e'') Undefined)) None,
     \<comment> \<open>0x54\<close> plain (Some ''LD D,H'') (Some (LD8 (Str ''d'') (Str ''h'') Undefined)) None,
     \<comment> \<open>0x55\<close> plain (Some ''LD D,L'') (Some (LD8 (Str ''d'') (Str ''l'') Undefined)) None,
     \<comment> \<open>0x56\<close> plain (Some ''LD D,(HL)'') None None,
     \<comment> \<open>0x57\<close> plain (Some ''LD D,A'') (Some (LD8 (Str ''d'') (Str ''a'') Undefined)) None,
     \<comment> \<open>0x58\<close> plain (Some ''LD E,B'') (Some (LD8 (Str ''e'') (Str ''b'') Undefined)) None,
     \<comment> \<open>0x59\<close> plain (Some ''LD E,C'') (Some (LD8 (Str ''e'') (Str ''c'') Undefined)) None,
     \<comment> \<open>0x5A\<close> plain (Some ''LD E,D'') (Some (LD8 (Str ''e'') (Str ''d'') Undefined)) None,
     \<comment> \<open>0x5B\<close> plain (Some ''LD E,E'') (Some NOOP) None,
     \<comment> \<open>0x5C\<close> plain (Some ''LD E,H'') (Some (LD8 (Str ''e'') (Str ''h'') Undefined)) None,
     \<comment> \<open>0x5D\<close> plain (Some ''LD E,L'') (Some (LD8 (Str ''e'') (Str ''l'') Undefined)) None,
     \<comment> \<open>0x5E\<close> plain (Some ''LD E,(HL)'') None None,
     \<comment> \<open>0x5F\<close> plain (Some ''LD E,A'') (Some (LD8 (Str ''e'') (Str ''a'') Undefined)) None,
     \<comment> \<open>0x60\<close> plain (Some ''LD H,B'') (Some (LD8 (Str ''h'') (Str ''b'') Undefined)) None,
     \<comment> \<open>0x61\<close> plain (Some ''LD H,C'') (Some (LD8 (Str ''h'') (Str ''c'') Undefined)) None,
     \<comment> \<open>0x62\<close> plain (Some ''LD H,D'') (Some (LD8 (Str ''h'') (Str ''d'') Undefined)) None,
     \<comment> \<open>0x63\<close> plain (Some ''LD H,E'') (Some (LD8 (Str ''h'') (Str ''e'') Undefined)) None,
     \<comment> \<open>0x64\<close> plain (Some ''LD H,H'') (Some NOOP) None,
     \<comment> \<open>0x65\<close> plain (Some ''LD H,L'') (Some (LD8 (Str ''h'') (Str ''l'') Undefined)) None,
     \<comment> \<open>0x66\<close> plain (Some ''LD H,(HL)'') None None,
     \<comment> \<open>0x67\<close> plain (Some ''LD H,A'') (Some (LD8 (Str ''h'') (Str ''a'') Undefined)) None,
     \<comment> \<open>0x68\<close> plain (Some ''LD L,B'') (Some (LD8 (Str ''l'') (Str ''b'') Undefined)) None,
     \<comment> \<open>0x69\<close> plain (Some ''LD L,C'') (Some (LD8 (Str ''l'') (Str ''c'') Undefined)) None,
     \<comment> \<open>0x6A\<close> plain (Some ''LD L,D'') (Some (LD8 (Str ''l'') (Str ''d'') Undefined)) None,
     \<comment> \<open>0x6B\<close> plain (Some ''LD L,E'') (Some (LD8 (Str ''l'') (Str ''e'') Undefined)) None,
     \<comment> \<open>0x6C\<close> plain (Some ''LD L,H'') (Some (LD8 (Str ''l'') (Str ''h'') Undefined)) None,
     \<comment> \<open>0x6D\<close> plain (Some ''LD L,L'') (Some NOOP) None,
     \<comment> \<open>0x6E\<close> plain (Some ''LD L,(HL)'') None None,
     \<comment> \<open>0x6F\<close> plain (Some ''LD L,A'') (Some (LD8 (Str ''l'') (Str ''a'') Undefined)) None,
     \<comment> \<open>0x70\<close> plain (Some ''LD (HL),B'') None None,
     \<comment> \<open>0x71\<close> plain (Some ''LD (HL),C'') None None,
     \<comment> \<open>0x72\<close> plain (Some ''LD (HL),D'') None None,
     \<comment> \<open>0x73\<close> plain (Some ''LD (HL),E'') None None,
     \<comment> \<open>0x74\<close> plain (Some ''LD (HL),H'') None None,
     \<comment> \<open>0x75\<close> plain (Some ''LD (HL),L'') None None,
     \<comment> \<open>0x76\<close> plain (Some ''HALT'') None None,
     \<comment> \<open>0x77\<close> plain (Some ''LD (HL),A'') None None,
     \<comment> \<open>0x78\<close> plain (Some ''LD A,B'') (Some (LD8 (Str ''a'') (Str ''b'') Undefined)) None,
     \<comment> \<open>0x79\<close> plain (Some ''LD A,C'') (Some (LD8 (Str ''a'') (Str ''c'') Undefined)) None,
     \<comment> \<open>0x7A\<close> plain (Some ''LD A,D'') (Some (LD8 (Str ''a'') (Str ''d'') Undefined)) None,
     \<comment> \<open>0x7B\<close> plain (Some ''LD A,E'') (Some (LD8 (Str ''a'') (Str ''e'') Undefined)) None,
     \<comment> \<open>0x7C\<close> plain (Some ''LD A,H'') (Some (LD8 (Str ''a'') (Str ''h'') Undefined)) None,
     \<comment> \<open>0x7D\<close> plain (Some ''LD A,L'') (Some (LD8 (Str ''a'') (Str ''l'') Undefined)) None,
     \<comment> \<open>0x7E\<close> plain (Some ''LD A,(HL)'') (Some (LD8 (Str ''a'') (Str ''h'') (Str ''l''))) None,
     \<comment> \<open>0x7F\<close> plain (Some ''LD A,A'') (Some NOOP) None,
     \<comment> \<open>0x80\<close> plain (Some ''ADD A,B'') (Some (ADD (Str ''b'') Undefined)) None,
     \<comment> \<open>0x81\<close> plain (Some ''ADD A,C'') (Some (ADD (Str ''c'') Undefined)) None,
     \<comment> \<open>0x82\<close> plain (Some ''ADD A,D'') (Some (ADD (Str ''d'') Undefined)) None,
     \<comment> \<open>0x83\<close> plain (Some ''ADD A,E'') (Some (ADD (Str ''e'') Undefined)) None,
     \<comment> \<open>0x84\<close> plain (Some ''ADD A,H'') (Some (ADD (Str ''h'') Undefined)) None,
     \<comment> \<open>0x85\<close> plain (Some ''ADD A,L'') (Some (ADD (Str ''l'') Undefined)) None,
     \<comment> \<open>0x86\<close> plain (Some ''ADD A,(HL)'') None None,
     \<comment> \<open>0x87\<close> plain (Some ''ADD A,A'') (Some (ADD (Str ''a'') Undefined)) None,
     \<comment> \<open>0x88\<close> plain (Some ''ADC A,B'') None None,
     \<comment> \<open>0x89\<close> plain (Some ''ADC A,C'') None None,
     \<comment> \<open>0x8A\<close> plain (Some ''ADC A,D'') None None,
     \<comment> \<open>0x8B\<close> plain (Some ''ADC A,E'') None None,
     \<comment> \<open>0x8C\<close> plain (Some ''ADC A,H'') None None,
     \<comment> \<open>0x8D\<close> plain (Some ''ADC A,L'') None None,
     \<comment> \<open>0x8E\<close> plain (Some ''ADC A,(HL)'') None None,
     \<comment> \<open>0x8F\<close> plain (Some ''ADC A,A'') None None,
     \<comment> \<open>0x90\<close> plain (Some ''SUB A,B'') (Some (SUB (Str ''b''))) None,
     \<comment> \<open>0x91\<close> plain (Some ''SUB A,C'') (Some (SUB (Str ''c''))) None,
     \<comment> \<open>0x92\<close> plain (Some ''SUB A,D'') (Some (SUB (Str ''d''))) None,
     \<comment> \<open>0x93\<close> plain (Some ''SUB A,E'') (Some (SUB (Str ''e''))) None,
     \<comment> \<open>0x94\<close> plain (Some ''SUB A,H'') (Some (SUB (Str ''h''))) None,
     \<comment> \<open>0x95\<close> plain (Some ''SUB A,L'') (Some (SUB (Str ''l''))) None,
     \<comment> \<open>0x96\<close> plain (Some ''SUB A,(HL)'') None None,
     \<comment> \<open>0x97\<close> plain (Some ''SUB A,A'') (Some (SUB (Str ''a''))) None,
     \<comment> \<open>0x98\<close> plain (Some ''SBC A,B'') None None,
     \<comment> \<open>0x99\<close> plain (Some ''SBC A,C'') None None,
     \<comment> \<open>0x9A\<close> plain (Some ''SBC A,D'') None None,
     \<comment> \<open>0x9B\<close> plain (Some ''SBC A,E'') None None,
     \<comment> \<open>0x9C\<close> plain (Some ''SBC A,H'') None None,
     \<comment> \<open>0x9D\<close> plain (Some ''SBC A,L'') None None,
     \<comment> \<open>0x9E\<close> plain (Some ''SBC A,(HL)'') None None,
     \<comment> \<open>0x9F\<close> plain (Some ''SBC A,A'') None None,
     \<comment> \<open>0xA0\<close> plain (Some ''AND A,B'') (Some (AND E (Str ''b''))) None,
     \<comment> \<open>0xA1\<close> plain (Some ''AND A,C'') (Some (AND E (Str ''c''))) None,
     \<comment> \<open>0xA2\<close> plain (Some ''AND A,D'') (Some (AND E (Str ''d''))) None,
     \<comment> \<open>0xA3\<close> plain (Some ''AND A,E'') (Some (AND E (Str ''e''))) None,
     \<comment> \<open>0xA4\<close> plain (Some ''AND A,H'') (Some (AND E (Str ''h''))) None,
     \<comment> \<open>0xA5\<close> plain (Some ''AND A,L'') (Some (AND E (Str ''l''))) None,
     \<comment> \<open>0xA6\<close> plain (Some ''AND A,(HL)'') None None,
     \<comment> \<open>0xA7\<close> plain (Some ''AND A,A'') (Some (AND E (Str ''a''))) None,
     \<comment> \<open>0xA8\<close> plain (Some ''XOR A,B'') (Some (XOR E (Str ''b''))) None,
     \<comment> \<open>0xA9\<close> plain (Some ''XOR A,C'') (Some (XOR E (Str ''c''))) None,
     \<comment> \<open>0xAA\<close> plain (Some ''XOR A,D'') (Some (XOR E (Str ''d''))) None,
     \<comment> \<open>0xAB\<close> plain (Some ''XOR A,E'') (Some (XOR E (Str ''e''))) None,
     \<comment> \<open>0xAC\<close> plain (Some ''XOR A,H'') (Some (XOR E (Str ''h''))) None,
     \<comment> \<open>0xAD\<close> plain (Some ''XOR A,L'') (Some (XOR E (Str ''l''))) None,
     \<comment> \<open>0xAE\<close> plain (Some ''XOR A,(HL)'') None None,
     \<comment> \<open>0xAF\<close> plain (Some ''XOR A,A'') (Some (XOR E (Str ''a''))) None,
     \<comment> \<open>0xB0\<close> plain (Some ''OR A,B'') (Some (OR (Str ''b''))) None,
     \<comment> \<open>0xB1\<close> plain (Some ''OR A,C'') (Some (OR (Str ''c''))) None,
     \<comment> \<open>0xB2\<close> plain (Some ''OR A,D'') (Some (OR (Str ''d''))) None,
     \<comment> \<open>0xB3\<close> plain (Some ''OR A,E'') (Some (OR (Str ''e''))) None,
     \<comment> \<open>0xB4\<close> plain (Some ''OR A,H'') (Some (OR (Str ''h''))) None,
     \<comment> \<open>0xB5\<close> plain (Some ''OR A,L'') (Some (OR (Str ''l''))) None,
     \<comment> \<open>0xB6\<close> plain (Some ''OR A,(HL)'') None None,
     \<comment> \<open>0xB7\<close> plain (Some ''OR A,A'') (Some (OR (Str ''a''))) None,
     \<comment> \<open>0xB8\<close> plain (Some ''CP A,B'') None None,
     \<comment> \<open>0xB9\<close> plain (Some ''CP A,C'') None None,
     \<comment> \<open>0xBA\<close> plain (Some ''CP A,D'') None None,
     \<comment> \<open>0xBB\<close> plain (Some ''CP A,E'') None None,
     \<comment> \<open>0xBC\<close> plain (Some ''CP A,H'') None None,
     \<comment> \<open>0xBD\<close> plain (Some ''CP A,L'') None None,
     \<comment> \<open>0xBE\<close> plain (Some ''CP A,(HL)'') None None,
     \<comment> \<open>0xBF\<close> plain (Some ''CP A,A'') None None,
     \<comment> \<open>0xC0\<close> plain (Some ''RET NZ'') (Some (RET (Str ''=='') (Num (F_ZERO E)))) None,
     \<comment> \<open>0xC1\<close> plain (Some ''POP BC'') None None,
     \<comment> \<open>0xC2\<close> plain (Some ''JP NZ,(nn)'') (Some (JP (Str ''=='') (Num (F_ZERO E)))) None,
     \<comment> \<open>0xC3\<close> plain (Some ''JP (nn)'') (Some (JP Undefined Undefined)) None,
     \<comment> \<open>0xC4\<close> plain (Some ''CALL NZ (nn)'') (Some (CALL (Str ''=='') (Num (F_ZERO E)))) None,
     \<comment> \<open>0xC5\<close> plain (Some ''PUSH BC'') None None,
     \<comment> \<open>0xC6\<close> plain (Some ''ADD A,n'') None None,
     \<comment> \<open>0xC7\<close> plain (Some ''RST 00H'') (Some (RST (Num 0x00))) None,
     \<comment> \<open>0xC8\<close> plain (Some ''RET Z'') (Some (RET (Str ''!='') (Num (F_ZERO E)))) None,
     \<comment> \<open>0xC9\<close> plain (Some ''RET'') (Some (RET Undefined Undefined)) None,
     \<comment> \<open>0xCA\<close> plain (Some ''JP Z,(nn)'') (Some (JP (Str ''!='') (Num (F_ZERO E)))) None,
     \<comment> \<open>0xCB\<close> plain (Some '''') None None,
     \<comment> \<open>0xCC\<close> plain (Some ''CALL Z (nn)'') (Some (CALL (Str ''!='') (Num (F_ZERO E)))) None,
     \<comment> \<open>0xCD\<close> plain (Some ''CALL (nn)'') (Some (CALL Undefined Undefined)) None,
     \<comment> \<open>0xCE\<close> plain (Some ''ADC A,n'') None None,
     \<comment> \<open>0xCF\<close> plain (Some ''RST 08H'') (Some (RST (Num 0x08))) None,
     \<comment> \<open>0xD0\<close> plain (Some ''RET NC'') (Some (RET (Str ''=='') (Num (F_CARRY E)))) None,
     \<comment> \<open>0xD1\<close> plain (Some ''POP DE'') None None,
     \<comment> \<open>0xD2\<close> plain (Some ''JP NC,(nn)'') (Some (JP (Str ''=='') (Num (F_CARRY E)))) None,
     \<comment> \<open>0xD3\<close> plain (Some ''OUT (n),A'') None None,
     \<comment> \<open>0xD4\<close> plain (Some ''CALL NC (nn)'') (Some (CALL (Str ''=='') (Num (F_CARRY E)))) None,
     \<comment> \<open>0xD5\<close> plain (Some ''PUSH DE'') None None,
     \<comment> \<open>0xD6\<close> plain (Some ''SUB n'') (Some (SUB Undefined)) None,
     \<comment> \<open>0xD7\<close> plain (Some ''RST 10H'') (Some (RST (Num 0x10))) None,
     \<comment> \<open>0xD8\<close> plain (Some ''RET C'') (Some (RET (Str ''!='') (Num (F_CARRY E)))) None,
     \<comment> \<open>0xD9\<close> plain (Some ''EXX'') None None,
     \<comment> \<open>0xDA\<close> plain (Some ''JP C,(nn)'') (Some (JP (Str ''!='') (Num (F_CARRY E)))) None,
     \<comment> \<open>0xDB\<close> plain (Some ''IN A,(n)'') None None,
     \<comment> \<open>0xDC\<close> plain (Some ''CALL C (nn)'') (Some (CALL (Str ''!='') (Num (F_CARRY E)))) None,
     \<comment> \<open>0xDD\<close> plain (Some '''') None None,
     \<comment> \<open>0xDE\<close> plain (Some ''SBC A,n'') None None,
     \<comment> \<open>0xDF\<close> plain (Some ''RST 18H'') (Some (RST (Num 0x18))) None,
     \<comment> \<open>0xE0\<close> plain (Some ''RET PO'') (Some (RET (Str ''=='') (Num (F_PARITY E)))) None,
     \<comment> \<open>0xE1\<close> plain (Some ''POP HL'') None None,
     \<comment> \<open>0xE2\<close> plain (Some ''JP PO,(nn)'') (Some (JP (Str ''=='') (Num (F_PARITY E)))) None,
     \<comment> \<open>0xE3\<close> plain (Some ''EX (SP),HL'') None None,
     \<comment> \<open>0xE4\<close> plain (Some ''CALL PO (nn)'') (Some (CALL (Str ''=='') (Num (F_PARITY E)))) None,
     \<comment> \<open>0xE5\<close> plain (Some ''PUSH HL'') None None,
     \<comment> \<open>0xE6\<close> plain (Some ''AND (n)'') (Some (AND E Undefined)) None,
     \<comment> \<open>0xE7\<close> plain (Some ''RST 20H'') (Some (RST (Num 0x20))) None,
     \<comment> \<open>0xE8\<close> plain (Some ''RET PE'') (Some (RET (Str ''!='') (Num (F_PARITY E)))) None,
     \<comment> \<open>0xE9\<close> plain (Some ''JP (HL)'') None None,
     \<comment> \<open>0xEA\<close> plain (Some ''JP PE,(nn)'') (Some (JP (Str ''!='') (Num (F_PARITY E)))) None,
     \<comment> \<open>0xEB\<close> plain (Some ''EX DE,HL'') None None,
     \<comment> \<open>0xEC\<close> plain (Some ''CALL PE (nn)'') (Some (CALL (Str ''!='') (Num (F_PARITY E)))) None,
     \<comment> \<open>0xED\<close> plain (Some '''') None None,
     \<comment> \<open>0xEE\<close> plain (Some ''XOR n'') (Some (XOR E Undefined)) None,
     \<comment> \<open>0xEF\<close> plain (Some ''RST 28H'') (Some (RST (Num 0x28))) None,
     \<comment> \<open>0xF0\<close> plain (Some ''RET P'') (Some (RET (Str ''=='') (Num (F_SIGN E)))) None,
     \<comment> \<open>0xF1\<close> plain (Some ''POP AF'') None None,
     \<comment> \<open>0xF2\<close> plain (Some ''JP P,(nn)'') (Some (JP (Str ''=='') (Num (F_SIGN E)))) None,
     \<comment> \<open>0xF3\<close> plain (Some ''DI'') None None,
     \<comment> \<open>0xF4\<close> plain (Some ''CALL P (nn)'') (Some (CALL (Str ''=='') (Num (F_SIGN E)))) None,
     \<comment> \<open>0xF5\<close> plain (Some ''PUSH AF'') None None,
     \<comment> \<open>0xF6\<close> plain (Some ''OR n'') None None,
     \<comment> \<open>0xF7\<close> plain (Some ''RST 30H'') (Some (RST (Num 0x30))) None,
     \<comment> \<open>0xF8\<close> plain (Some ''RET M'') (Some (RET (Str ''!='') (Num (F_SIGN E)))) None,
     \<comment> \<open>0xF9\<close> plain (Some ''LD SP,HL'') None None,
     \<comment> \<open>0xFA\<close> plain (Some ''JP M,(nn)'') (Some (JP (Str ''!='') (Num (F_SIGN E)))) None,
     \<comment> \<open>0xFB\<close> plain (Some ''EI'') None None,
     \<comment> \<open>0xFC\<close> plain (Some ''CALL M (nn)'') (Some (CALL (Str ''!='') (Num (F_SIGN E)))) None,
     \<comment> \<open>0xFD\<close> plain (Some '''') None None,
     \<comment> \<open>0xFE\<close> plain (Some ''CP n'') None None,
     \<comment> \<open>0xFF\<close> plain (Some ''RST 38H'') (Some (RST (Num 0x38))) None
   ]"

definition opcodeTable :: "env \<Rightarrow> error + entry list" where
  "opcodeTable E = collect (opcodeSlots E)"

text \<open>\<open>opcodeTable[i]\<close>, read in order to access a property of the descriptor: past the
  end of the array the element is \<open>undefined\<close> and the property access throws.\<close>

definition entryAt :: "env \<Rightarrow> nat \<Rightarrow> error + entry" where
  "entryAt E i =
     bind_err (opcodeTable E) (\<lambda>t.
       if i < length t then Inr (t ! i)
       else Inl (TypeError ''Cannot read properties of undefined''))"

section \<open>The library as an object\<close>

text \<open>
  \<open>generateIndexTable\<close> reaches the combinators through property lookups on the global
  object \<open>o\<close>, and a lookup of a property that the object does not have gives
  \<open>undefined\<close>, whose call throws. \<open>o_keys\<close> are the properties of the object literal of
  \<open>o\<close>, in order.
\<close>

definition o_keys :: "string list" where
  "o_keys =
     [''NOOP'', ''LD8'', ''LD16'', ''LD_WRITE_MEM'', ''LD_SP'', ''INC8'', ''INC16'', ''DEC8'',
      ''DEC16'', ''ADD16'', ''EX_AF'', ''RLA'', ''RRA'', ''ADD'', ''SUB'', ''AND'', ''XOR'', ''OR'',
      ''JR'', ''DJNZ'', ''RET'', ''JP'', ''CALL'', ''RST'', ''READ_MEM8'', ''READ_MEM16'']"

text \<open>
  A combinator called with a list of names and numbers; a parameter past the end of the
  list is \<open>undefined\<close>, and arguments past the parameters are ignored.
\<close>

type_synonym combinator = "jsval list \<Rightarrow> error + emitter"

type_synonym library = "string \<Rightarrow> combinator option"

definition arg :: "jsval list \<Rightarrow> nat \<Rightarrow> jsval" where
  "arg args i = (if i < length args then args ! i else Undefined)"

text \<open>
  The members of \<open>o\<close> by name. \<open>JR\<close>, \<open>READ_MEM8\<close> and \<open>READ_MEM16\<close> take a node instead
  of names; no code looks them up with names as arguments, and they are not listed.
\<close>

definition o_lib :: "env \<Rightarrow> library" where
  "o_lib E = map_of
     [(''NOOP'', \<lambda>a. Inr NOOP),
      (''LD8'', \<lambda>a. Inr (LD8 (arg a 0) (arg a 1) (arg a 2))),
      (''LD16'', \<lambda>a. LD16 (arg a 0) (arg a 1) (arg a 2) (arg a 3)),
      (''LD_WRITE_MEM'', \<lambda>a. Inr (LD_WRITE_MEM (arg a 0) (arg a 1) (arg a 2) (arg a 3))),
      (''LD_SP'', \<lambda>a. Inr LD_SP),
      (''INC8'', \<lambda>a. Inr (INC8 (arg a 0))),
      (''INC16'', \<lambda>a. Inr (INC16 (arg a 0) (arg a 1))),
      (''DEC8'', \<lambda>a. Inr (DEC8 (arg a 0))),
      (''DEC16'', \<lambda>a. Inr (DEC16 (arg a 0) (arg a 1))),
      (''ADD16'', \<lambda>a. Inr (ADD16 (arg a 0) (arg a 1) (arg a 2) (arg a 3))),
      (''EX_AF'', \<lambda>a. Inr EX_AF),
      (''RLA'', \<lambda>a. Inr RLA),
      (''RRA'', \<lambda>a. Inr RRA),
      (''ADD'', \<lambda>a. Inr (ADD (arg a 0) (arg a 1))),
      (''SUB'', \<lambda>a. Inr (SUB (arg a 0))),
      (''AND'', \<lambda>a. Inr (AND E (arg a 0))),
      (''XOR'', \<lambda>a. Inr (XOR E (arg a 0))),
      (''OR'', \<lambda>a. Inr (OR (arg a 0))),
      (''DJNZ'', \<lambda>a. Inr DJNZ),
      (''RET'', \<lambda>a. Inr (RET (arg a 0) (arg a 1))),
      (''JP'', \<lambda>a. Inr (JP (arg a 0) (arg a 1))),
      (''CALL'', \<lambda>a. Inr (CALL (arg a 0) (arg a 1))),
      (''RST'', \<lambda>a. Inr (RST (arg a 0)))]"

text \<open>\<open>o.member(args)\<close>.\<close>

definition o_call :: "library \<Rightarrow> string \<Rightarrow> jsval list \<Rightarrow> error + emitter" where
  "o_call lib member args =
     (case lib member of
        None \<Rightarrow> Inl (TypeError (''o.'' @ member @ '' is not a function''))
      | Some f \<Rightarrow> f args)"

section \<open>The index tables\<close>

text \<open>\<open>s.substring(a, b)\<close> and \<open>s.toLowerCase()\<close> (ASCII).\<close>

definition substring :: "string \<Rightarrow> nat \<Rightarrow> nat \<Rightarrow> string" where
  "substring s a b = take (max a b - min a b) (drop (min a b) s)"

definition toLowerCase :: "string \<Rightarrow> string" where
  "toLowerCase s = map lower_char s"

text \<open>
  A slot of an index table holds a descriptor, or, at key \<open>0xCB\<close>, a reference to the
  table of the indexed bit operations. The two tables \<open>opcodeTableDDCB\<close> and
  \<open>opcodeTableFDCB\<close> are globals that the source files do not define: parameters here.
\<close>

datatype slot = Descriptor entry | SubTable "entry list"

text \<open>A property \<open>{name: nm, ast: o.member(args), operand: op}\<close> of the object literal.\<close>

definition descriptor ::
  "library \<Rightarrow> string \<Rightarrow> string \<Rightarrow> jsval list \<Rightarrow> int option \<Rightarrow> error + slot" where
  "descriptor lib nm member args op =
     bind_err (o_call lib member args) (\<lambda>a.
       Inr (Descriptor \<lparr>name = Some nm, ast = Some a, operand = op\<rparr>))"

text \<open>
  The properties of the object literal that \<open>generateIndexTable\<close> returns, as written:
  each key with the expression that computes its value.
\<close>

definition indexProps ::
  "library \<Rightarrow> entry list \<Rightarrow> entry list \<Rightarrow> string \<Rightarrow> (nat \<times> (error + slot)) list" where
  "indexProps lib opcodeTableDDCB opcodeTableFDCB index =
     (let register2 = substring index 1 2;
          register2LC = toLowerCase (substring index 1 2)
      in [
        (0x09, descriptor lib (''ADD '' @ index @ '',BC'') ''ADD16'' [Str ''i'', Str register2, Str ''b'', Str ''c''] None),
        (0x19, descriptor lib (''ADD '' @ index @ '',DE'') ''ADD16'' [Str ''i'', Str register2, Str ''d'', Str ''e''] None),
        (0x21, descriptor lib (''LD '' @ index @ '',nn'') ''LD16'' [Str ''i'', Str register2] None),
        (0x22, descriptor lib (''LD (nn),'' @ index) ''LD_NN'' [Str (''i'' @ register2LC @ ''H''), Str (''i'' @ register2LC @ ''L'')] None),
        (0x23, descriptor lib (''INC '' @ index) ''INC16'' [Str ''i'', Str register2] None),
        (0x2A, descriptor lib (''LD '' @ index @ '',(nn)'') ''LD16'' [Str (''i'' @ register2LC @ ''H''), Str (''i'' @ register2LC @ ''L''), Str ''n'', Str ''n''] (Some UINT16)),
        (0x2B, descriptor lib (''DEC '' @ index) ''DEC16'' [Str ''i'', Str register2] None),
        (0x34, descriptor lib (''INC ('' @ index @ ''+d)'') ''INC_X'' [Str ''i'', Str register2] None),
        (0x35, descriptor lib (''DEC ('' @ index @ ''+d)'') ''DEC_X'' [Str ''i'', Str register2] None),
        (0x36, descriptor lib (''LD ('' @ index @ ''+d),n'') ''LD_X'' [Str ''i'', Str register2] None),
        (0x46, descriptor lib (''LD B,('' @ index @ ''+d)'') ''LD8_D'' [Str ''b'', Str ''i'', Str register2] None),
        (0x4E, descriptor lib (''LD C,('' @ index @ ''+d)'') ''LD8_D'' [Str ''c'', Str ''i'', Str register2] None),
        (0x56, descriptor lib (''LD D,('' @ index @ ''+d)'') ''LD8_D'' [Str ''d'', Str ''i'', Str register2] None),
        (0x5E, descriptor lib (''LD E,('' @ index @ ''+d)'') ''LD8_D'' [Str ''e'', Str ''i'', Str register2] None),
        (0x66, descriptor lib (''LD H,('' @ index @ ''+d)'') ''LD8_D'' [Str ''h'', Str ''i'', Str register2] None),
        (0x6E, descriptor lib (''LD L,('' @ index @ ''+d)'') ''LD8_D'' [Str ''l'', Str ''i'', Str register2] None),
        (0x70, descriptor lib (''LD ('' @ index @ ''+d),B'') ''LD_X'' [Str ''b'', Str ''i'', Str register2] None),
        (0x71, descriptor lib (''LD ('' @ index @ ''+d),C'') ''LD_X'' [Str ''c'', Str ''i'', Str register2] None),
        (0x72, descriptor lib (''LD ('' @ index @ ''+d),D'') ''LD_X'' [Str ''d'', Str ''i'', Str register2] None),
        (0x73, descriptor lib (''LD ('' @ index @ ''+d),E'') ''LD_X'' [Str ''e'', Str ''i'', Str register2] None),
        (0x74, descriptor lib (''LD ('' @ index @ ''+d),H'') ''LD_X'' [Str ''h'', Str ''i'', Str register2] None),
        (0x75, descriptor lib (''LD ('' @ index @ ''+d),L'') ''LD_X'' [Str ''l'', Str ''i'', Str register2] None),
        (0x76, descriptor lib (''LD ('' @ index @ ''+d),B'') ''LD_X'' [Str ''b'', Str ''i'', Str register2] None),
        (0x77, descriptor lib (''LD ('' @ index @ ''+d),A'') ''LD_X'' [Str ''a'', Str ''i'', Str register2] None),
        (0x7E, descriptor lib (''LD A,('' @ index @ ''+d)'') ''LD8_D'' [Str ''a'', Str ''i'', Str register2] None),
        (0x86, descriptor lib (''ADD A,('' @ index @ ''+d)'') ''ADD_X'' [Str ''i'', Str register2] None),
        (0xCB, Inr (SubTable (if index = ''IX'' then opcodeTableDDCB else opcodeTableFDCB))),
        (0xB6, descriptor lib (''OR A,('' @ index @ ''+d)'') ''OR_X'' [Str ''i'', Str register2] None),
        (0xBE, descriptor lib (''CP ('' @ index @ ''+d)'') ''CP_X'' [Str ''i'', Str register2] None),
        (0xE1, descriptor lib (''POP '' @ index) ''POP'' [Str ''i'', Str register2] None),
        (0xE3, descriptor lib (''EX SP,('' @ index @ '')'') ''EX_SP_X'' [Str ''i'', Str register2] None),
        (0xE5, descriptor lib (''PUSH '' @ index) ''PUSH'' [Str (''i'' @ register2LC @ ''H''), Str (''i'' @ register2LC @ ''L'')] None),
        (0xE9, descriptor lib (''JP ('' @ index @ '')'') ''JP_X'' [Str ''i'', Str register2] None),
        (0xF9, descriptor lib (''LD SP,'' @ index) ''LD_SP'' [Str ''i'', Str register2] None)
      ])"

text \<open>The values are computed in order; the first call that throws ends the function.\<close>

fun collect_keyed :: "('k \<times> (error + 'a)) list \<Rightarrow> error + ('k \<times> 'a) list" where
  "collect_keyed [] = Inr []"
| "collect_keyed ((k, x) # ps) =
     bind_err x (\<lambda>y. bind_err (collect_keyed ps) (\<lambda>ys. Inr ((k, y) # ys)))"

definition generateIndexTable ::
  "library \<Rightarrow> entry list \<Rightarrow> entry list \<Rightarrow> string \<Rightarrow> error + (nat \<times> slot) list" where
  "generateIndexTable lib opcodeTableDDCB opcodeTableFDCB index =
     collect_keyed (indexProps lib opcodeTableDDCB opcodeTableFDCB index)"

section \<open>An instance of the environment\<close>

text \<open>
  Modelled from the spec: the flag masks and \<open>SZP_TABLE\<close> are defined outside the source
  files. The spec fixes the masks as distinct single bits of a byte and the table as 256
  entries holding the sign, zero and parity bits of each 8-bit value; this instance uses
  the bit positions of the Z80 flag register. It serves to run the model on concrete
  inputs.
\<close>

fun bit_count :: "nat \<Rightarrow> nat" where
  "bit_count n = (if n = 0 then 0 else n mod 2 + bit_count (n div 2))"

declare bit_count.simps [simp del]

definition szp :: "nat \<Rightarrow> int" where
  "szp v = (if 128 \<le> v then 0x80 else 0) + (if v = 0 then 0x40 else 0)
           + (if even (bit_count v) then 0x04 else 0)"

definition z80_env :: env where
  "z80_env = \<lparr>F_CARRY = 0x01, F_ZERO = 0x40, F_PARITY = 0x04, F_SIGN = 0x80,
              F_HALFCARRY = 0x10, SZP_TABLE = map szp [0..<256]\<rparr>"

section \<open>Notions used in the statements\<close>

fun is_ok :: "error + 'a \<Rightarrow> bool" where
  "is_ok (Inr x) = True"
| "is_ok (Inl e) = False"

text \<open>A descriptor has a name when the property is set to a non-empty string.\<close>

definition named :: "entry \<Rightarrow> bool" where
  "named d = (case name d of None \<Rightarrow> False | Some s \<Rightarrow> s \<noteq> [])"

section \<open>Running the table construction\<close>

lemma collect_ok: "list_all is_ok xs \<Longrightarrow> collect xs = Inr (map projr xs)"
proof (induction xs)
  case Nil
  then show ?case by simp
next
  case (Cons x xs)
  then obtain y where "x = Inr y" by (cases x) auto
  with Cons show ?case by (simp add: bind_err_def)
qed

lemma collect_stops:
  "list_all is_ok xs \<Longrightarrow> collect (xs @ Inl e # ys) = Inl e"
proof (induction xs)
  case Nil
  then show ?case by (simp add: bind_err_def)
next
  case (Cons x xs)
  then obtain y where "x = Inr y" by (cases x) auto
  with Cons show ?case by (simp add: bind_err_def)
qed

lemmas slot_simps =
  opcodeSlots_def plain_def checked_def LD16_def eq_undefined_def bind_err_def

lemma opcodeSlots_ok: "list_all is_ok (opcodeSlots E)"
  by (simp add: slot_simps)

lemma opcodeSlots_length: "length (opcodeSlots E) = 256"
  by (simp add: opcodeSlots_def)

lemma opcodeTable_eq: "opcodeTable E = Inr (map projr (opcodeSlots E))"
  unfolding opcodeTable_def by (rule collect_ok) (rule opcodeSlots_ok)

lemma entryAt_eq: "i < 256 \<Longrightarrow> entryAt E i = Inr (projr (opcodeSlots E ! i))"
  by (simp add: entryAt_def opcodeTable_eq bind_err_def opcodeSlots_length)

lemma replicate_num: "replicate (numeral k) x = x # replicate (pred_numeral k) x"
  by (simp add: numeral_eq_Suc)

lemma named_slots:
  "map (\<lambda>s. named (projr s)) (opcodeSlots E) =
     replicate 27 True @ False # replicate 175 True @ False # replicate 17 True @ False #
     replicate 15 True @ False # replicate 15 True @ False # replicate 2 True"
  by (simp add: slot_simps named_def replicate_num)

lemma named_entries:
  assumes "i < 256" and "i \<notin> {0x1B, 0xCB, 0xDD, 0xED, 0xFD}"
  shows "named (projr (opcodeSlots E ! i))"
proof -
  have "named (projr (opcodeSlots E ! i)) = map (\<lambda>s. named (projr s)) (opcodeSlots E) ! i"
    using assms(1) by (simp add: opcodeSlots_length)
  also have "\<dots>"
    unfolding named_slots using assms by (auto simp: nth_append nth_Cons')
  finally show ?thesis .
qed

lemma prefix_slots:
  "map (\<lambda>i. name (projr (opcodeSlots E ! i))) [0xCB, 0xDD, 0xED, 0xFD] =
     [Some [], Some [], Some [], Some []]"
  by (simp add: slot_simps)

section \<open>The opcode table: names, operands and emitters\<close>

text \<open>
  Claim C1, as amended. The claim asks for 256 entries with a non-empty name at every
  index of \<open>opcodeTable\<close>, \<open>opcodeTableCB\<close> and \<open>opcodeTableED\<close>. Only \<open>opcodeTable\<close> is
  defined in the source files. Its construction succeeds and gives 256 entries; every
  entry has a non-empty name except at \<open>0x1B\<close>, about which nothing is stated here, and
  at the four prefix bytes \<open>0xCB\<close>, \<open>0xDD\<close>, \<open>0xED\<close> and \<open>0xFD\<close>, whose name is the
  empty string.
\<close>

theorem opcodeTable_names:
  "\<exists>t. opcodeTable E = Inr t \<and> length t = 256 \<and>
       (\<forall>i<256. i \<notin> {0x1B, 0xCB, 0xDD, 0xED, 0xFD} \<longrightarrow> named (t ! i)) \<and>
       (\<forall>i\<in>{0xCB, 0xDD, 0xED, 0xFD}. name (t ! i) = Some [])"
proof (intro exI conjI)
  show "opcodeTable E = Inr (map projr (opcodeSlots E))"
    by (rule opcodeTable_eq)
  show "length (map projr (opcodeSlots E)) = 256"
    by (simp add: opcodeSlots_length)
  show "\<forall>i<256. i \<notin> {0x1B, 0xCB, 0xDD, 0xED, 0xFD}
          \<longrightarrow> named (map projr (opcodeSlots E) ! i)"
    by (simp add: opcodeSlots_length named_entries)
  have "list_all (\<lambda>i. name (projr (opcodeSlots E ! i)) = Some []) [0xCB, 0xDD, 0xED, 0xFD]"
    using prefix_slots [of E] by simp
  then show "\<forall>i\<in>{0xCB, 0xDD, 0xED, 0xFD}. name (map projr (opcodeSlots E) ! i) = Some []"
    by (simp add: opcodeSlots_length)
qed

theorem opcodeTable_names_witness:
  "\<exists>t. opcodeTable z80_env = Inr t \<and> length t = 256 \<and> named (t ! 0x76)
       \<and> name (t ! 0xCB) = Some []"
proof -
  from opcodeTable_names [of z80_env] obtain t where
    t: "opcodeTable z80_env = Inr t" "length t = 256" and
    a: "\<forall>i<256. i \<notin> {0x1B, 0xCB, 0xDD, 0xED, 0xFD} \<longrightarrow> named (t ! i)" and
    b: "\<forall>i\<in>{0xCB, 0xDD, 0xED, 0xFD}. name (t ! i) = Some []"
    by blast
  from a have "named (t ! 0x76)" by simp
  moreover from b have "name (t ! 0xCB) = Some []" by simp
  ultimately show ?thesis using t by blast
qed

text \<open>The entry at the prefix byte \<open>0xCB\<close> has the empty string as its name.\<close>

theorem opcodeTable_CB_name_empty:
  "entryAt z80_env 0xCB = Inr \<lparr>name = Some [], ast = None, operand = None\<rparr>"
  by (simp add: entryAt_eq slot_simps)

text \<open>
  The entry at \<open>0x1B\<close> spells its first key \<open>ame\<close>, so that its \<open>name\<close> is not set; the
  emitter is the one of \<open>DEC DE\<close>.
\<close>

lemma opcodeTable_1B_unnamed:
  "entryAt E 0x1B =
     Inr \<lparr>name = None, ast = Some (DEC16 (Str ''d'') (Str ''e'')), operand = None\<rparr>"
  by (simp add: entryAt_eq slot_simps)

text \<open>
  Claim C2, as amended. The entry of \<open>opcodeTable\<close> for byte \<open>0x18\<close>, \<open>JR (PC+e)\<close>, carries
  the operand tag \<open>INT8\<close> and no emitter. The combinator \<open>JR\<close> itself, for any test
  expression, emits for the target \<open>0x100\<close> the statement
  \<open>if (test) { pc = 0x100; tstates -= 5 }\<close> with no alternate.
\<close>

theorem JR_entry_and_emitter:
  "entryAt E 0x18 = Inr \<lparr>name = Some ''JR (PC+e)'', ast = None, operand = Some INT8\<rparr> \<and>
   JR test value (Num 0x100) currentAddress =
     Inr (One (IfStatement test
       (BlockStatement
          [ExpressionStatement
             (AssignmentExpression ''='' (Identifier ''pc'') (Literal (Num 0x100))),
           ExpressionStatement
             (AssignmentExpression ''-='' (Identifier ''tstates'') (Literal (Num 5)))])
       None))"
  by (simp add: entryAt_eq slot_simps JR_def n_IfStatement_def)

text \<open>The entry for byte \<open>0x18\<close> has no emitter: its \<open>ast\<close> is not set.\<close>

theorem JR_entry_without_emitter:
  "entryAt z80_env 0x18 =
     Inr \<lparr>name = Some ''JR (PC+e)'', ast = None, operand = Some INT8\<rparr>"
  by (simp add: entryAt_eq slot_simps)

text \<open>
  The four conditional relative jumps are entered the same way: an \<open>INT8\<close> operand and no
  emitter.
\<close>

lemma conditional_JR_entries:
  "map (entryAt E) [0x20, 0x28, 0x30, 0x38] =
     [Inr \<lparr>name = Some ''JR NZ,(PC+e)'', ast = None, operand = Some INT8\<rparr>,
      Inr \<lparr>name = Some ''JR Z,(PC+e)'', ast = None, operand = Some INT8\<rparr>,
      Inr \<lparr>name = Some ''JR NC,(PC+e)'', ast = None, operand = Some INT8\<rparr>,
      Inr \<lparr>name = Some ''JR C,(PC+e)'', ast = None, operand = Some INT8\<rparr>]"
  by (simp add: entryAt_eq slot_simps)

text \<open>
  Claim C3. The emitter of \<open>XOR('a')\<close>, which is the \<open>ast\<close> of the entry \<open>0xAF\<close>
  (\<open>XOR A,A\<close>), returns exactly two statements: \<open>a = 0\<close> with the literal \<open>0\<close>, then an
  assignment to \<open>f\<close> of a \<open>Literal\<close> node that holds the number found at
  \<open>SZP_TABLE[0]\<close>; no \<open>MemberExpression\<close> is built.
\<close>

theorem XOR_A_emits_literals:
  assumes "SZP_TABLE E \<noteq> []"
  shows "entryAt E 0xAF =
           Inr \<lparr>name = Some ''XOR A,A'', ast = Some (XOR E (Str ''a'')), operand = None\<rparr> \<and>
         XOR E (Str ''a'') value target currentAddress =
           Inr (Array
             [One (ExpressionStatement
                (AssignmentExpression ''='' (Register (Str ''a'')) (Literal (Num 0)))),
              One (ExpressionStatement
                (AssignmentExpression ''='' (Register (Str ''f''))
                   (Literal (Num (hd (SZP_TABLE E))))))])"
proof -
  from assms have "js_index (SZP_TABLE E) 0 = Num (hd (SZP_TABLE E))"
    by (cases "SZP_TABLE E") (simp_all add: js_index_def)
  then show ?thesis
    by (simp add: entryAt_eq slot_simps XOR_def)
qed

theorem XOR_A_emits_literals_witness:
  "SZP_TABLE z80_env \<noteq> [] \<and>
   XOR z80_env (Str ''a'') Undefined Undefined (Num 0) =
     Inr (Array
       [One (ExpressionStatement
          (AssignmentExpression ''='' (Register (Str ''a'')) (Literal (Num 0)))),
        One (ExpressionStatement
          (AssignmentExpression ''='' (Register (Str ''f'')) (Literal (Num 0x44))))])"
proof -
  have ne: "SZP_TABLE z80_env \<noteq> []"
    by (simp add: z80_env_def)
  have "hd (SZP_TABLE z80_env) = 0x44"
    by (simp add: z80_env_def upt_conv_Cons szp_def bit_count.simps)
  with XOR_A_emits_literals [OF ne, of Undefined Undefined "Num 0"] ne
  show ?thesis by simp
qed

text \<open>
  Claim C5 asks that an entry carry an operand tag exactly when its instruction takes an
  immediate. The table does otherwise at these entries: \<open>LD B,B\<close> at \<open>0x40\<close> has the
  \<open>NOOP\<close> emitter, which returns nothing whatever it is given, and the tag \<open>UINT8\<close>;
  \<open>JP (nn)\<close> at \<open>0xC3\<close> and \<open>CALL (nn)\<close> at \<open>0xCD\<close> have emitters that store the target
  in \<open>pc\<close>, and no tag; \<open>SUB n\<close> at \<open>0xD6\<close> passes the immediate to \<open>sub_a\<close>, and has
  no tag; and none of the sixteen conditional \<open>JP\<close> and \<open>CALL\<close> entries has a tag.
\<close>

theorem operand_tags_mismatch:
  "entryAt E 0x40 = Inr \<lparr>name = Some ''LD B,B'', ast = Some NOOP, operand = Some UINT8\<rparr> \<and>
   NOOP value target currentAddress = Inr NoValue \<and>
   entryAt E 0xC3 =
     Inr \<lparr>name = Some ''JP (nn)'', ast = Some (JP Undefined Undefined), operand = None\<rparr> \<and>
   JP Undefined Undefined value target currentAddress =
     Inr (Array
       [One (ExpressionStatement
          (AssignmentExpression ''='' (Identifier ''pc'') (Literal target))),
        One (ReturnStatement None)]) \<and>
   entryAt E 0xCD =
     Inr \<lparr>name = Some ''CALL (nn)'', ast = Some (CALL Undefined Undefined), operand = None\<rparr> \<and>
   CALL Undefined Undefined value target (Num pc) =
     Inr (Array
       [One (ExpressionStatement
          (CallExpression (Identifier ''push1'') [Literal (Num (pc + 2))])),
        One (ExpressionStatement
          (AssignmentExpression ''='' (Identifier ''pc'') (Literal target))),
        One (ReturnStatement None)]) \<and>
   entryAt E 0xD6 = Inr \<lparr>name = Some ''SUB n'', ast = Some (SUB Undefined), operand = None\<rparr> \<and>
   SUB Undefined value target currentAddress =
     Inr (One (ExpressionStatement (CallExpression (Identifier ''sub_a'') [Literal value]))) \<and>
   map (\<lambda>i. map_sum id operand (entryAt E i))
     [0xC2, 0xC4, 0xCA, 0xCC, 0xD2, 0xD4, 0xDA, 0xDC,
      0xE2, 0xE4, 0xEA, 0xEC, 0xF2, 0xF4, 0xFA, 0xFC] = replicate 16 (Inr None)"
  by (simp add: entryAt_eq slot_simps NOOP_def JP_def CALL_def SUB_def stmt_def
      n_ReturnStatement_def n_CallExpression_def js_plus_def replicate_num)

text \<open>
  Claim C6. \<open>LD16\<close> returns an emitter exactly for the two tolerated shapes of its
  destination arguments: both left out (\<open>undefined\<close>, from which the test \<open>== undefined\<close>
  does not tell \<open>null\<close> apart), or both the string \<open>'n'\<close>. For every other pattern the
  call itself throws \<open>Error('Wrong parameters number')\<close>, so that an array literal with
  such a call among its elements is not built. In the tolerated shapes, with names for
  the register pair, the emitter does not throw either.
\<close>

theorem LD16_arity:
  "(is_ok (LD16 s1 s2 d1 d2) \<longleftrightarrow>
      (eq_undefined d1 \<and> eq_undefined d2) \<or> (d1 = Str ''n'' \<and> d2 = Str ''n'')) \<and>
   (\<not> ((eq_undefined d1 \<and> eq_undefined d2) \<or> (d1 = Str ''n'' \<and> d2 = Str ''n'')) \<longrightarrow>
      LD16 s1 s2 d1 d2 = Inl (Error ''Wrong parameters number'') \<and>
      (list_all is_ok before \<longrightarrow>
         collect (before @ checked nm (LD16 s1 s2 d1 d2) op # rest)
           = Inl (Error ''Wrong parameters number''))) \<and>
   (\<exists>em. LD16 (Str hi) (Str lo) Undefined Undefined = Inr em \<and>
      em value target currentAddress =
        Inr (One (ExpressionStatement
          (CallExpression (Identifier (''set'' @ map upper_char (hi @ lo))) [Literal value])))) \<and>
   (\<exists>em. LD16 (Str hi) (Str lo) (Str ''n'') (Str ''n'') = Inr em \<and>
      em value target currentAddress =
        Inr (One (ExpressionStatement
          (CallExpression (Identifier (''set'' @ map upper_char (hi @ lo)))
             [CallExpression (Identifier ''readMemWord'') [Literal value]]))))"
proof (intro conjI impI)
  show "is_ok (LD16 s1 s2 d1 d2) \<longleftrightarrow>
      (eq_undefined d1 \<and> eq_undefined d2) \<or> (d1 = Str ''n'' \<and> d2 = Str ''n'')"
    by (simp add: LD16_def)
next
  assume bad: "\<not> ((eq_undefined d1 \<and> eq_undefined d2) \<or> (d1 = Str ''n'' \<and> d2 = Str ''n''))"
  then show e: "LD16 s1 s2 d1 d2 = Inl (Error ''Wrong parameters number'')"
    by (auto simp: LD16_def)
  assume "list_all is_ok before"
  then show "collect (before @ checked nm (LD16 s1 s2 d1 d2) op # rest)
           = Inl (Error ''Wrong parameters number'')"
    by (simp add: e checked_def bind_err_def collect_stops)
next
  show "\<exists>em. LD16 (Str hi) (Str lo) Undefined Undefined = Inr em \<and>
      em value target currentAddress =
        Inr (One (ExpressionStatement
          (CallExpression (Identifier (''set'' @ map upper_char (hi @ lo))) [Literal value])))"
    by (simp add: LD16_def eq_undefined_def pair_accessor_def js_plus_def toUpperCase_def
        bind_err_def stmt_def n_CallExpression_def)
next
  show "\<exists>em. LD16 (Str hi) (Str lo) (Str ''n'') (Str ''n'') = Inr em \<and>
      em value target currentAddress =
        Inr (One (ExpressionStatement
          (CallExpression (Identifier (''set'' @ map upper_char (hi @ lo)))
             [CallExpression (Identifier ''readMemWord'') [Literal value]])))"
    by (simp add: LD16_def eq_undefined_def pair_accessor_def js_plus_def toUpperCase_def
        bind_err_def stmt_def n_CallExpression_def READ_MEM16_def)
qed

theorem LD16_arity_witness:
  "LD16 (Str ''h'') (Str ''l'') (Str ''n'') Undefined = Inl (Error ''Wrong parameters number'') \<and>
   collect [plain (Some ''NOP'') (Some NOOP) None,
            checked (Some ''LD HL,(nn)'') (LD16 (Str ''h'') (Str ''l'') (Str ''n'') Undefined)
              (Some UINT16),
            plain (Some ''INC HL'') (Some (INC16 (Str ''h'') (Str ''l''))) None]
     = Inl (Error ''Wrong parameters number'') \<and>
   is_ok (LD16 (Str ''h'') (Str ''l'') (Str ''n'') (Str ''n'')) \<and>
   is_ok (LD16 (Str ''h'') (Str ''l'') Undefined Undefined)"
proof -
  have bad: "\<not> ((eq_undefined (Str ''n'') \<and> eq_undefined Undefined)
                \<or> (Str ''n'' = Str ''n'' \<and> Undefined = Str ''n''))"
    by (simp add: eq_undefined_def)
  have ok: "list_all is_ok [plain (Some ''NOP'') (Some NOOP) None]"
    by (simp add: plain_def)
  note a = LD16_arity [of "Str ''h''" "Str ''l''" "Str ''n''" Undefined
      "[plain (Some ''NOP'') (Some NOOP) None]" "Some ''LD HL,(nn)''" "Some UINT16"
      "[plain (Some ''INC HL'') (Some (INC16 (Str ''h'') (Str ''l''))) None]"]
  note b = LD16_arity [of "Str ''h''" "Str ''l''" "Str ''n''" "Str ''n''"]
  note c = LD16_arity [of "Str ''h''" "Str ''l''" Undefined Undefined]
  from a bad ok have
    "LD16 (Str ''h'') (Str ''l'') (Str ''n'') Undefined = Inl (Error ''Wrong parameters number'')"
    "collect ([plain (Some ''NOP'') (Some NOOP) None] @
        checked (Some ''LD HL,(nn)'') (LD16 (Str ''h'') (Str ''l'') (Str ''n'') Undefined)
          (Some UINT16) #
        [plain (Some ''INC HL'') (Some (INC16 (Str ''h'') (Str ''l''))) None])
      = Inl (Error ''Wrong parameters number'')"
    by blast+
  moreover from b have "is_ok (LD16 (Str ''h'') (Str ''l'') (Str ''n'') (Str ''n''))"
    by simp
  moreover from c have "is_ok (LD16 (Str ''h'') (Str ''l'') Undefined Undefined)"
    by (simp add: eq_undefined_def)
  ultimately show ?thesis by simp
qed

text \<open>
  Claim C7. For every target \<open>t\<close> the emitter of \<open>DJNZ\<close>, the \<open>ast\<close> of the entry \<open>0x10\<close>,
  returns exactly two statements: \<open>b = (b - 1) & 0xFF\<close>, then
  \<open>if (b != 0) { pc = t; tstates -= 5 }\<close>; and the second is the statement that the
  emitter of \<open>JR\<close> with the test \<open>b != 0\<close> returns for the same target.
\<close>

theorem DJNZ_emits:
  "entryAt E 0x10 = Inr \<lparr>name = Some ''DJNZ (PC+e)'', ast = Some DJNZ, operand = Some INT8\<rparr> \<and>
   DJNZ value t currentAddress =
     Inr (Array
       [One (ExpressionStatement
          (AssignmentExpression ''='' (Register (Str ''b''))
             (BinaryExpression (Str ''&'')
                (BinaryExpression (Str ''-'') (Register (Str ''b'')) (Literal (Num 1)))
                (Literal (Num 0xFF))))),
        One (IfStatement
          (BinaryExpression (Str ''!='') (Register (Str ''b'')) (Literal (Num 0)))
          (BlockStatement
             [ExpressionStatement
                (AssignmentExpression ''='' (Identifier ''pc'') (Literal t)),
              ExpressionStatement
                (AssignmentExpression ''-='' (Identifier ''tstates'') (Literal (Num 5)))])
          None)]) \<and>
   (\<exists>first jump.
      DJNZ value t currentAddress = Inr (Array [first, jump]) \<and>
      JR (BinaryExpression (Str ''!='') (Register (Str ''b'')) (Literal (Num 0)))
        value' t currentAddress' = Inr jump)"
  by (simp add: entryAt_eq slot_simps DJNZ_def JR_def n_IfStatement_def)

text \<open>
  Claim C10. For every 16-bit operand \<open>v\<close> the emitter of
  \<open>LD_WRITE_MEM('n', 'n', 'h', 'l')\<close>, the \<open>ast\<close> of the entry \<open>0x22\<close> (\<open>LD (nn),HL\<close>),
  writes \<open>l\<close> at the literal \<open>v\<close> and \<open>h\<close> at the literal \<open>v + 1\<close>, computed when the
  statement is emitted and not reduced modulo \<open>2^16\<close>: for \<open>v = 0xFFFF\<close> the second
  address is the literal \<open>0x10000\<close>.
\<close>

theorem LD_nn_HL_address_not_wrapped:
  assumes "0 \<le> v" and "v \<le> 0xFFFF"
  shows "entryAt E 0x22 =
           Inr \<lparr>name = Some ''LD (nn),HL'',
                ast = Some (LD_WRITE_MEM (Str ''n'') (Str ''n'') (Str ''h'') (Str ''l'')),
                operand = Some UINT16\<rparr> \<and>
         LD_WRITE_MEM (Str ''n'') (Str ''n'') (Str ''h'') (Str ''l'') (Num v) target currentAddress =
           Inr (Array
             [One (ExpressionStatement
                (CallExpression (Identifier ''writeMem'') [Literal (Num v), Register (Str ''l'')])),
              One (ExpressionStatement
                (CallExpression (Identifier ''writeMem'')
                   [Literal (Num (v + 1)), Register (Str ''h'')]))])"
  by (simp add: entryAt_eq slot_simps LD_WRITE_MEM_def n_CallExpression_def js_plus_def)

theorem LD_nn_HL_address_not_wrapped_witness:
  "LD_WRITE_MEM (Str ''n'') (Str ''n'') (Str ''h'') (Str ''l'') (Num 0xFFFF) Undefined (Num 0) =
     Inr (Array
       [One (ExpressionStatement
          (CallExpression (Identifier ''writeMem'') [Literal (Num 0xFFFF), Register (Str ''l'')])),
        One (ExpressionStatement
          (CallExpression (Identifier ''writeMem'')
             [Literal (Num 0x10000), Register (Str ''h'')]))])"
  using LD_nn_HL_address_not_wrapped [of "0xFFFF" z80_env Undefined "Num 0"] by simp

section \<open>The index-table factory\<close>

lemmas index_simps =
  generateIndexTable_def indexProps_def Let_def substring_def toLowerCase_def lower_char_def
  lower_letters_def upper_letters_def

text \<open>
  Claim C4 asks that \<open>o\<close> provide the combinators \<open>LD8_D\<close>, \<open>LD_X\<close>, \<open>INC_X\<close>, \<open>DEC_X\<close>,
  \<open>ADD_X\<close>, \<open>OR_X\<close>, \<open>CP_X\<close>, \<open>EX_SP_X\<close>, \<open>JP_X\<close>, \<open>POP\<close> and \<open>PUSH\<close>, so that
  \<open>generateIndexTable\<close> builds its tables without error. The object \<open>o\<close> of the sources
  has none of these properties, and with it \<open>generateIndexTable('IX')\<close> and
  \<open>generateIndexTable('IY')\<close> throw at the fourth property of the literal, key \<open>0x22\<close>,
  whose value calls \<open>o.LD_NN\<close>, another property that \<open>o\<close> does not have.
\<close>

theorem generateIndexTable_throws:
  "set [''LD8_D'', ''LD_X'', ''INC_X'', ''DEC_X'', ''ADD_X'', ''OR_X'', ''CP_X'', ''EX_SP_X'',
        ''JP_X'', ''POP'', ''PUSH''] \<inter> set o_keys = {} \<and>
   map (\<lambda>member. is_ok (o_call (o_lib E) member args))
     [''LD8_D'', ''LD_X'', ''INC_X'', ''DEC_X'', ''ADD_X'', ''OR_X'', ''CP_X'', ''EX_SP_X'',
      ''JP_X'', ''POP'', ''PUSH''] = replicate 11 False \<and>
   generateIndexTable (o_lib E) opcodeTableDDCB opcodeTableFDCB ''IX''
     = Inl (TypeError ''o.LD_NN is not a function'') \<and>
   generateIndexTable (o_lib E) opcodeTableDDCB opcodeTableFDCB ''IY''
     = Inl (TypeError ''o.LD_NN is not a function'')"
  by (simp add: o_keys_def o_lib_def o_call_def index_simps descriptor_def bind_err_def
      LD16_def eq_undefined_def arg_def replicate_num)

text \<open>
  The object literal of \<open>generateIndexTable\<close> as it is written, whatever the library: its
  34 keys, and the property \<open>0x76\<close>, which repeats the name \<open>'LD (' + index + '+d),B'\<close> and
  the call \<open>o.LD_X('b', 'i', register2)\<close> of the property \<open>0x70\<close>.
\<close>

lemma index_literal_keys:
  "map fst (indexProps lib opcodeTableDDCB opcodeTableFDCB index) =
     [0x09, 0x19, 0x21, 0x22, 0x23, 0x2A, 0x2B, 0x34, 0x35, 0x36, 0x46, 0x4E, 0x56, 0x5E,
      0x66, 0x6E, 0x70, 0x71, 0x72, 0x73, 0x74, 0x75, 0x76, 0x77, 0x7E, 0x86, 0xCB, 0xB6,
      0xBE, 0xE1, 0xE3, 0xE5, 0xE9, 0xF9]"
  by (simp add: indexProps_def Let_def)

lemma index_literal_0x76:
  "map_of (indexProps lib opcodeTableDDCB opcodeTableFDCB index) 0x76 =
     Some (descriptor lib (''LD ('' @ index @ ''+d),B'') ''LD_X''
             [Str ''b'', Str ''i'', Str (substring index 1 2)] None) \<and>
   map_of (indexProps lib opcodeTableDDCB opcodeTableFDCB index) 0x70 =
     map_of (indexProps lib opcodeTableDDCB opcodeTableFDCB index) 0x76"
  by (simp add: indexProps_def Let_def)

text \<open>
  Claim C9 describes the entry \<open>0x76\<close> of the table returned by
  \<open>generateIndexTable(index)\<close>. With the object \<open>o\<close> of the sources the function returns
  no table, for any index register: it throws at key \<open>0x22\<close>, as in claim C4. The values
  of the properties \<open>0x76\<close> and \<open>0x70\<close> are never computed, and computing either would
  throw as well, because \<open>o\<close> has no member \<open>LD_X\<close>.
\<close>

theorem index_0x76_never_built:
  "generateIndexTable (o_lib E) opcodeTableDDCB opcodeTableFDCB index
     = Inl (TypeError ''o.LD_NN is not a function'') \<and>
   map_of (indexProps (o_lib E) opcodeTableDDCB opcodeTableFDCB index) 0x76
     = Some (Inl (TypeError ''o.LD_X is not a function'')) \<and>
   map_of (indexProps (o_lib E) opcodeTableDDCB opcodeTableFDCB index) 0x70
     = Some (Inl (TypeError ''o.LD_X is not a function''))"
  by (simp add: o_lib_def o_call_def generateIndexTable_def indexProps_def Let_def
      descriptor_def bind_err_def LD16_def eq_undefined_def arg_def)

text \<open>
  Claim C8 compares the tables that \<open>generateIndexTable('IX')\<close> and
  \<open>generateIndexTable('IY')\<close> produce. With the object \<open>o\<close> of the sources neither call
  produces a table, whatever \<open>opcodeTableDDCB\<close> and \<open>opcodeTableFDCB\<close> are: of the 34
  properties of each literal only those at the keys \<open>0x09\<close>, \<open>0x19\<close>, \<open>0x21\<close>, \<open>0x23\<close>,
  \<open>0x2A\<close>, \<open>0x2B\<close>, \<open>0xCB\<close> and \<open>0xF9\<close> have a value that can be computed; the other 26 call
  a member that \<open>o\<close> does not have, the first of them at key \<open>0x22\<close>, as in claim C4.
\<close>

theorem index_tables_not_produced:
  "generateIndexTable (o_lib E) opcodeTableDDCB opcodeTableFDCB ''IX'' \<noteq> Inr tx \<and>
   generateIndexTable (o_lib E) opcodeTableDDCB opcodeTableFDCB ''IY'' \<noteq> Inr ty \<and>
   map fst (filter (\<lambda>p. is_ok (snd p))
     (indexProps (o_lib E) opcodeTableDDCB opcodeTableFDCB ''IX''))
     = [0x09, 0x19, 0x21, 0x23, 0x2A, 0x2B, 0xCB, 0xF9] \<and>
   map fst (filter (\<lambda>p. is_ok (snd p))
     (indexProps (o_lib E) opcodeTableDDCB opcodeTableFDCB ''IY''))
     = [0x09, 0x19, 0x21, 0x23, 0x2A, 0x2B, 0xCB, 0xF9]"
  by (simp add: o_lib_def o_call_def index_simps descriptor_def bind_err_def
      LD16_def eq_undefined_def arg_def)

end
